theory Spec2Isabelle
  imports Main "HOL-Library.Word"
begin

section \<open>The direct filter of goproxy (httpproxy/filters/direct/direct.go)\<close>

text \<open>
  The file has two functions that do work: \<open>NewFilter\<close>, which builds the dialer and the
  HTTP transport from the configuration, and \<open>Filter.RoundTrip\<close>, which serves one request
  (a CONNECT tunnel or a forwarded request). Both are embedded below as HOL functions.
  What they call outside the file (the Go standard library, glog, and the packages
  dialer, helpers, proxy, filters of the repository) is an explicit parameter: an
  \<open>environment\<close> for construction and a \<open>world\<close> for a request.
\<close>

subsection \<open>Machine types\<close>

text \<open>
  Go's \<open>int\<close> and \<open>uint\<close> are 64 bits wide on the 64-bit targets the proxy is built for;
  \<open>time.Duration\<close> is an \<open>int64\<close> count of nanoseconds. Arithmetic on them wraps around,
  as word arithmetic does.
\<close>

type_synonym go_int = "64 word"
type_synonym go_uint = "64 word"
type_synonym Duration = "64 word"

definition Millisecond :: Duration where
  "Millisecond = 1000000"

definition Second :: Duration where
  "Second = 1000000000"

text \<open>
  A \<open>float32\<close> value: \<open>Finite s m e\<close> is \<open>(-1)^s * m * 2^e\<close> with a significand
  \<open>m < 2^24\<close> and \<open>-149 \<le> e \<le> 104\<close>; the other two are the infinities and NaN.
\<close>

datatype float32 = Finite bool nat int | Inf bool | NaN

fun bit_length :: "nat \<Rightarrow> nat" where
  "bit_length n = (if n = 0 then 0 else Suc (bit_length (n div 2)))"

declare bit_length.simps [simp del]

text \<open>\<open>round_even p k\<close> is \<open>p / 2^k\<close> rounded to the nearest integer, ties to even.\<close>

definition round_even :: "nat \<Rightarrow> nat \<Rightarrow> nat" where
  "round_even p k =
     (let q = p div 2 ^ k; r = p mod 2 ^ k in
      if 2 * r < 2 ^ k then q
      else if 2 ^ k < 2 * r then q + 1
      else if even q then q else q + 1)"

text \<open>
  The \<open>float32\<close> product \<open>x * n\<close> for a positive integer constant \<open>n\<close> that \<open>float32\<close>
  holds exactly (\<open>n = 1000\<close> in the source): the exact product, rounded to 24 significant
  bits, and infinite once it passes the largest finite value.
\<close>

fun f32_mul_const :: "float32 \<Rightarrow> nat \<Rightarrow> float32" where
  "f32_mul_const (Finite s m e) n =
     (let p = m * n in
      if p < 2 ^ 24 then Finite s p e
      else
        (let k = bit_length p - 24;
             q = round_even p k;
             m' = (if q = 2 ^ 24 then 2 ^ 23 else q);
             e' = (if q = 2 ^ 24 then e + int k + 1 else e + int k)
         in if 104 < e' then Inf s else Finite s m' e'))"
| "f32_mul_const (Inf s) n = Inf s"
| "f32_mul_const NaN n = NaN"

text \<open>
  The conversion \<open>int64(x)\<close> of a \<open>float32\<close>: the fraction is discarded. Go leaves the
  result open when the value does not fit; the amd64 instruction yields the smallest
  \<open>int64\<close> then, which is what is modelled.
\<close>

definition int64_min :: "64 word" where
  "int64_min = 0x8000000000000000"

fun f32_to_int64 :: "float32 \<Rightarrow> 64 word" where
  "f32_to_int64 (Finite s m e) =
     (let mag = (if 0 \<le> e then m * 2 ^ nat e else m div 2 ^ nat (- e)) in
      if \<not> s \<and> mag < 2 ^ 63 then of_nat mag
      else if s \<and> mag \<le> 2 ^ 63 then - of_nat mag
      else int64_min)"
| "f32_to_int64 (Inf s) = int64_min"
| "f32_to_int64 NaN = int64_min"

subsection \<open>The configuration (type Config)\<close>

record Config_Dialer =
  Timeout :: go_int
  KeepAlive :: go_int
  DualStack :: bool
  RetryTimes :: go_int
  RetryDelay :: float32
  DNSCacheExpiry :: go_int
  DNSCacheSize :: go_uint

record Config_Proxy =
  Enabled :: bool
  URL :: string

record Config_TLSClientConfig =
  InsecureSkipVerify :: bool
  ClientSessionCacheSize :: go_int

record Config_Transport =
  Dialer :: Config_Dialer
  Proxy :: Config_Proxy
  TLSClientConfig :: Config_TLSClientConfig
  DisableKeepAlives :: bool
  DisableCompression :: bool
  TLSHandshakeTimeout :: go_int
  MaxIdleConnsPerHost :: go_int

record Config =
  Transport :: Config_Transport

subsection \<open>The objects NewFilter builds\<close>

text \<open>
  An \<open>error\<close> is either one a collaborator returned (opaque, with its message) or one of
  the three that \<open>RoundTrip\<close> makes with \<open>fmt.Errorf\<close>.
\<close>

datatype error =
    External string
  | NotHijacker
  | NotFlusher
  | HijackError error

text \<open>\<open>net.Dialer\<close> and \<open>dialer.Dialer\<close>, with the fields the composite literal sets.\<close>

record net_Dialer =
  net_KeepAlive :: Duration
  net_Timeout :: Duration
  net_DualStack :: bool

record dialer_Dialer =
  d_Dialer :: net_Dialer
  d_RetryTimes :: go_int
  d_RetryDelay :: Duration
  d_DNSCache :: go_uint
  d_DNSCacheExpiry :: Duration
  d_LoopbackAddrs :: "string \<rightharpoonup> unit"

text \<open>
  \<open>d_DNSCache\<close> is the capacity given to \<open>lrucache.NewLRUCache\<close>; \<open>d_LoopbackAddrs\<close>
  is the \<open>map[string]struct{}\<close>.
\<close>

record url_URL =
  Scheme :: string
  url_Host :: string

text \<open>
  A \<open>proxy.Dialer\<close> made by \<open>proxy.FromURL\<close> is an opaque handle. A value of the function
  type \<open>func(network, addr string) (net.Conn, error)\<close> is one of the two method values
  the source stores in \<open>tr.Dial\<close>; \<open>nil\<close> is \<open>None\<close>.
\<close>

type_synonym proxy_Dialer = nat

datatype dial_func =
    Dialer_Dial dialer_Dialer
  | proxy_Dialer_Dial proxy_Dialer

record tls_Config =
  tls_InsecureSkipVerify :: bool
  tls_ClientSessionCache :: go_int

text \<open>
  \<open>http.Transport\<close>, with the fields the source touches and \<open>DisableKeepAlives\<close>, the
  field that \<open>Config.Transport.DisableKeepAlives\<close> is named after. \<open>tr_Proxy\<close> is
  \<open>http.ProxyURL(u)\<close> as \<open>Some u\<close>. A composite literal leaves the fields it does not
  name at their zero values.
\<close>

record http_Transport =
  tr_Proxy :: "url_URL option"
  tr_Dial :: "dial_func option"
  tr_DialTLS :: "dial_func option"
  tr_TLSClientConfig :: "tls_Config option"
  tr_TLSHandshakeTimeout :: Duration
  tr_DisableKeepAlives :: bool
  tr_DisableCompression :: bool
  tr_MaxIdleConnsPerHost :: go_int

definition http_Transport_zero :: http_Transport where
  "http_Transport_zero =
     \<lparr> tr_Proxy = None, tr_Dial = None, tr_DialTLS = None, tr_TLSClientConfig = None,
       tr_TLSHandshakeTimeout = 0, tr_DisableKeepAlives = False,
       tr_DisableCompression = False, tr_MaxIdleConnsPerHost = 0 \<rparr>"

record Filter =
  filter_Config :: Config
  transport :: http_Transport

subsection \<open>NewFilter\<close>

text \<open>
  What construction calls outside the file: \<open>helpers.LocalInterfaceIPs()\<close> (each address
  given by its \<open>String()\<close> form), \<open>url.Parse\<close> and \<open>proxy.FromURL\<close>.
\<close>

record environment =
  LocalInterfaceIPs :: "error + string list"
  url_Parse :: "string \<Rightarrow> error + url_URL"
  proxy_FromURL :: "url_URL \<Rightarrow> dialer_Dialer \<Rightarrow> error + proxy_Dialer"

text \<open>
  \<open>glog.Fatalf\<close> logs and exits the process: nothing after it runs. A call of
  \<open>NewFilter\<close> therefore either halts the process or returns its pair.
\<close>

datatype fatal =
    url_Parse_error string error
  | proxy_FromURL_error url_URL error

datatype 'a startup = Fatalf fatal | Return 'a

text \<open>Lines 78 to 95: the dialer \<open>d\<close> and the loop that fills its loopback set.\<close>

definition NewFilter_dialer :: "environment \<Rightarrow> Config \<Rightarrow> dialer_Dialer" where
  "NewFilter_dialer env config =
     (let d = \<lparr> d_Dialer =
                  \<lparr> net_KeepAlive = KeepAlive (Dialer (Transport config)) * Second,
                    net_Timeout = Timeout (Dialer (Transport config)) * Second,
                    net_DualStack = DualStack (Dialer (Transport config)) \<rparr>,
                d_RetryTimes = RetryTimes (Dialer (Transport config)),
                d_RetryDelay =
                  f32_to_int64 (f32_mul_const (RetryDelay (Dialer (Transport config))) 1000)
                    * Second,
                d_DNSCache = DNSCacheSize (Dialer (Transport config)),
                d_DNSCacheExpiry = DNSCacheExpiry (Dialer (Transport config)) * Second,
                d_LoopbackAddrs = Map.empty \<rparr>
      in case LocalInterfaceIPs env of
           Inr ips \<Rightarrow>
             d\<lparr> d_LoopbackAddrs := foldl (\<lambda>m ip. m(ip \<mapsto> ())) (d_LoopbackAddrs d) ips \<rparr>
         | Inl err \<Rightarrow> d)"

text \<open>Lines 97 to 106: the transport \<open>tr\<close> as the composite literal makes it.\<close>

definition NewFilter_transport :: "dialer_Dialer \<Rightarrow> Config \<Rightarrow> http_Transport" where
  "NewFilter_transport d config =
     http_Transport_zero
       \<lparr> tr_Dial := Some (Dialer_Dial d),
         tr_TLSClientConfig := Some
           \<lparr> tls_InsecureSkipVerify = InsecureSkipVerify (TLSClientConfig (Transport config)),
             tls_ClientSessionCache =
               ClientSessionCacheSize (TLSClientConfig (Transport config)) \<rparr>,
         tr_TLSHandshakeTimeout := TLSHandshakeTimeout (Transport config) * Second,
         tr_MaxIdleConnsPerHost := MaxIdleConnsPerHost (Transport config),
         tr_DisableCompression := DisableCompression (Transport config) \<rparr>"

text \<open>The whole function: lines 108 to 134 choose the connector and return the filter.\<close>

definition NewFilter :: "environment \<Rightarrow> Config \<Rightarrow> (Filter \<times> error option) startup" where
  "NewFilter env config =
     (let d = NewFilter_dialer env config;
          tr = NewFilter_transport d config
      in if Enabled (Proxy (Transport config)) then
           (case url_Parse env (URL (Proxy (Transport config))) of
              Inl err \<Rightarrow> Fatalf (url_Parse_error (URL (Proxy (Transport config))) err)
            | Inr fixedURL \<Rightarrow>
                if Scheme fixedURL = ''http'' \<or> Scheme fixedURL = ''https'' then
                  Return (\<lparr> filter_Config = config,
                            transport = tr\<lparr> tr_Proxy := Some fixedURL,
                                            tr_Dial := None,
                                            tr_DialTLS := None \<rparr> \<rparr>, None)
                else
                  (case proxy_FromURL env fixedURL d of
                     Inl err \<Rightarrow> Fatalf (proxy_FromURL_error fixedURL err)
                   | Inr dialer \<Rightarrow>
                       Return (\<lparr> filter_Config = config,
                                 transport = tr\<lparr> tr_Dial := Some (proxy_Dialer_Dial dialer),
                                                 tr_DialTLS := None,
                                                 tr_Proxy := None \<rparr> \<rparr>, None)))
         else Return (\<lparr> filter_Config = config, transport = tr \<rparr>, None))"

subsection \<open>Filter.RoundTrip\<close>

text \<open>
  Connections are handles. The request and the response writer carry the fields and the
  capabilities the function reads: whether the writer's dynamic type implements
  \<open>http.Hijacker\<close> and \<open>http.Flusher\<close>, and what its \<open>Hijack()\<close> returns.
  \<open>filters.GetResponseWriter(ctx)\<close> reads the writer out of the context.
\<close>

type_synonym conn = nat

record http_Request =
  Method :: string
  Host :: string
  RemoteAddr :: string
  Proto :: string
  req_URL :: string

record http_ResponseWriter =
  is_Hijacker :: bool
  is_Flusher :: bool
  Hijack :: "error + conn"

record Context =
  ctx_ResponseWriter :: http_ResponseWriter

definition GetResponseWriter :: "Context \<Rightarrow> http_ResponseWriter" where
  "GetResponseWriter ctx = ctx_ResponseWriter ctx"

datatype http_Response = DummyResponse | Response nat

text \<open>
  The calls a handler makes on its collaborators, in program order. \<open>GoIoCopy dst src\<close>
  is the statement \<open>go helpers.IoCopy(dst, src)\<close>, \<open>IoCopyCall dst src\<close> the
  synchronous call. Log lines (\<open>glog.V(2).Infof\<close>) are left out: no connection sees them.
\<close>

datatype event =
    DialCall string string
  | WriteHeader nat
  | Flush
  | HijackCall
  | GoIoCopy conn conn
  | IoCopyCall conn conn
  | Close conn
  | FixRequestURLCall
  | TransportRoundTrip http_Request

text \<open>
  What a request meets outside the file: the outcome of calling a dial function on a
  network and an address, the connections one run of \<open>helpers.IoCopy(dst, src)\<close> closes (the
  helper is not part of the file), \<open>helpers.FixRequestURL\<close>, and \<open>http.Transport.RoundTrip\<close>.
\<close>

record world =
  dial :: "dial_func \<Rightarrow> string \<Rightarrow> string \<Rightarrow> error + conn"
  IoCopy_closes :: "conn \<Rightarrow> conn \<Rightarrow> conn list"
  FixRequestURL :: "http_Request \<Rightarrow> http_Request"
  transport_RoundTrip :: "http_Transport \<Rightarrow> http_Request \<Rightarrow> error + http_Response"

text \<open>
  A call of \<open>RoundTrip\<close> returns its triple or panics (calling a \<open>nil\<close> function value is
  a run-time panic). \<open>trace\<close> is what the handler's own goroutine did; \<open>background\<close> is
  what the goroutine it started does when it runs to its end.
\<close>

datatype result =
    Panic
  | Returns Context "http_Response option" "error option"

record outcome =
  result :: result
  trace :: "event list"
  background :: "event list"

definition StatusOK :: nat where
  "StatusOK = 200"

definition RoundTrip :: "world \<Rightarrow> Filter \<Rightarrow> Context \<Rightarrow> http_Request \<Rightarrow> outcome" where
  "RoundTrip w f ctx req =
     (if Method req = ''CONNECT'' then
        (case tr_Dial (transport f) of
           None \<Rightarrow> \<lparr> result = Panic, trace = [], background = [] \<rparr>
         | Some Dial \<Rightarrow>
             (case dial w Dial ''tcp'' (Host req) of
                Inl err \<Rightarrow>
                  \<lparr> result = Returns ctx None (Some err),
                    trace = [DialCall ''tcp'' (Host req)], background = [] \<rparr>
              | Inr rconn \<Rightarrow>
                  (let rw = GetResponseWriter ctx in
                   if \<not> is_Hijacker rw then
                     \<lparr> result = Returns ctx None (Some NotHijacker),
                       trace = [DialCall ''tcp'' (Host req)], background = [] \<rparr>
                   else if \<not> is_Flusher rw then
                     \<lparr> result = Returns ctx None (Some NotFlusher),
                       trace = [DialCall ''tcp'' (Host req)], background = [] \<rparr>
                   else
                     (case Hijack rw of
                        Inl err \<Rightarrow>
                          \<lparr> result = Returns ctx None (Some (HijackError err)),
                            trace = [DialCall ''tcp'' (Host req), WriteHeader StatusOK, Flush,
                                     HijackCall],
                            background = [] \<rparr>
                      | Inr lconn \<Rightarrow>
                          \<lparr> result = Returns ctx (Some DummyResponse) None,
                            trace = [DialCall ''tcp'' (Host req), WriteHeader StatusOK, Flush,
                                     HijackCall, GoIoCopy rconn lconn, IoCopyCall lconn rconn]
                                    @ map Close (IoCopy_closes w lconn rconn)
                                    @ [Close lconn],
                            background = map Close (IoCopy_closes w rconn lconn) \<rparr>))))
      else
        (let req' = FixRequestURL w req in
         case transport_RoundTrip w (transport f) req' of
           Inl err \<Rightarrow>
             \<lparr> result = Returns ctx None (Some err),
               trace = [FixRequestURLCall, TransportRoundTrip req'], background = [] \<rparr>
         | Inr resp \<Rightarrow>
             \<lparr> result = Returns ctx (Some resp) None,
               trace = [FixRequestURLCall, TransportRoundTrip req'], background = [] \<rparr>))"

text \<open>How often a run closes a connection, in either goroutine.\<close>

definition closes :: "outcome \<Rightarrow> conn \<Rightarrow> nat" where
  "closes out c = count_list (trace out @ background out) (Close c)"

text \<open>
  An event that starts a relay direction: the \<open>go\<close> statement for client-to-destination,
  the synchronous call for destination-to-client.
\<close>

definition starts_relay :: "event \<Rightarrow> bool" where
  "starts_relay e = (case e of GoIoCopy a b \<Rightarrow> True | IoCopyCall a b \<Rightarrow> True | _ \<Rightarrow> False)"

subsection \<open>Concrete inputs\<close>

text \<open>
  The zero value of \<open>Config\<close> (what an empty JSON object unmarshals to), three ways to set
  one option in it, and a small environment and world to run the functions in: a
  \<open>url.Parse\<close> that splits off the scheme and rejects an empty one, a \<open>proxy.FromURL\<close>
  that knows SOCKS5 only, and a \<open>dial\<close> that is refused by one host.
\<close>

definition Config_zero :: Config where
  "Config_zero =
     \<lparr> Transport =
         \<lparr> Dialer = \<lparr> Timeout = 0, KeepAlive = 0, DualStack = False, RetryTimes = 0,
                      RetryDelay = Finite False 0 0, DNSCacheExpiry = 0, DNSCacheSize = 0 \<rparr>,
           Proxy = \<lparr> Enabled = False, URL = [] \<rparr>,
           TLSClientConfig = \<lparr> InsecureSkipVerify = False, ClientSessionCacheSize = 0 \<rparr>,
           DisableKeepAlives = False, DisableCompression = False,
           TLSHandshakeTimeout = 0, MaxIdleConnsPerHost = 0 \<rparr> \<rparr>"

definition with_Proxy :: "string \<Rightarrow> Config \<Rightarrow> Config" where
  "with_Proxy u config =
     config\<lparr> Transport := (Transport config)\<lparr> Proxy := \<lparr> Enabled = True, URL = u \<rparr> \<rparr> \<rparr>"

definition with_RetryDelay :: "float32 \<Rightarrow> Config \<Rightarrow> Config" where
  "with_RetryDelay x config =
     config\<lparr> Transport := (Transport config)
               \<lparr> Dialer := (Dialer (Transport config))\<lparr> RetryDelay := x \<rparr> \<rparr> \<rparr>"

definition with_DisableKeepAlives :: "bool \<Rightarrow> Config \<Rightarrow> Config" where
  "with_DisableKeepAlives b config =
     config\<lparr> Transport := (Transport config)\<lparr> DisableKeepAlives := b \<rparr> \<rparr>"

definition example_url_Parse :: "string \<Rightarrow> error + url_URL" where
  "example_url_Parse s =
     (if CHR '':'' \<notin> set s then Inr \<lparr> Scheme = [], url_Host = [] \<rparr>
      else if takeWhile (\<lambda>c. c \<noteq> CHR '':'') s = []
        then Inl (External ''missing protocol scheme'')
      else Inr \<lparr> Scheme = takeWhile (\<lambda>c. c \<noteq> CHR '':'') s,
                 url_Host = drop 3 (dropWhile (\<lambda>c. c \<noteq> CHR '':'') s) \<rparr>)"

definition example_environment :: "error + string list \<Rightarrow> environment" where
  "example_environment ips =
     \<lparr> LocalInterfaceIPs = ips,
       url_Parse = example_url_Parse,
       proxy_FromURL = (\<lambda>u d. if Scheme u = ''socks5'' then Inr 0
                               else Inl (External ''proxy: unknown scheme'')) \<rparr>"

definition example_world :: "(conn \<Rightarrow> conn \<Rightarrow> conn list) \<Rightarrow> world" where
  "example_world cl =
     \<lparr> dial = (\<lambda>f network addr.
                if addr = ''closed.example:443'' then Inl (External ''connection refused'')
                else Inr 7),
       IoCopy_closes = cl,
       FixRequestURL = (\<lambda>req. req),
       transport_RoundTrip = (\<lambda>tr req. Inr (Response 200)) \<rparr>"

definition example_Filter :: Filter where
  "example_Filter =
     \<lparr> filter_Config = Config_zero,
       transport = http_Transport_zero\<lparr> tr_Dial := Some (proxy_Dialer_Dial 0) \<rparr> \<rparr>"

definition example_Context :: "bool \<Rightarrow> bool \<Rightarrow> error + conn \<Rightarrow> Context" where
  "example_Context h fl hj =
     \<lparr> ctx_ResponseWriter = \<lparr> is_Hijacker = h, is_Flusher = fl, Hijack = hj \<rparr> \<rparr>"

definition CONNECT_to :: "string \<Rightarrow> http_Request" where
  "CONNECT_to host =
     \<lparr> Method = ''CONNECT'', Host = host, RemoteAddr = ''192.0.2.1:50000'',
       Proto = ''HTTP/1.1'', req_URL = [] \<rparr>"

lemmas example_defs =
  example_environment_def example_url_Parse_def with_Proxy_def Config_zero_def
  example_world_def example_Filter_def example_Context_def CONNECT_to_def
  GetResponseWriter_def http_Transport_zero_def

section \<open>Construction\<close>

subsection \<open>A native upstream proxy and CONNECT\<close>

text \<open>
  C1. With the upstream proxy enabled and a URL whose scheme is \<open>http\<close> or \<open>https\<close>,
  \<open>NewFilter\<close> returns a filter whose transport has the proxy set and \<open>Dial = nil\<close>.
  \<open>RoundTrip\<close> on a CONNECT request then calls that nil function: it panics before it
  has dialled anything, so no raw connection is opened, through the proxy or otherwise.
\<close>

theorem native_proxy_CONNECT_panics:
  assumes "Enabled (Proxy (Transport config))"
    and "url_Parse env (URL (Proxy (Transport config))) = Inr u"
    and "Scheme u = ''http'' \<or> Scheme u = ''https''"
    and "Method req = ''CONNECT''"
  shows "\<exists>f. NewFilter env config = Return (f, None)
           \<and> tr_Proxy (transport f) = Some u
           \<and> tr_Dial (transport f) = None
           \<and> RoundTrip w f ctx req = \<lparr> result = Panic, trace = [], background = [] \<rparr>"
  using assms by (auto simp: NewFilter_def RoundTrip_def Let_def)

theorem native_proxy_CONNECT_panics_witness:
  "\<exists>f. NewFilter (example_environment (Inr [])) (with_Proxy ''http://127.0.0.1:8087'' Config_zero)
          = Return (f, None)
       \<and> tr_Proxy (transport f) = Some \<lparr> Scheme = ''http'', url_Host = ''127.0.0.1:8087'' \<rparr>
       \<and> tr_Dial (transport f) = None
       \<and> RoundTrip (example_world (\<lambda>dst src. [])) f (example_Context True True (Inr 3))
            (CONNECT_to ''example.org:443'')
          = \<lparr> result = Panic, trace = [], background = [] \<rparr>"
  using native_proxy_CONNECT_panics
          [of "with_Proxy ''http://127.0.0.1:8087'' Config_zero" "example_environment (Inr [])"
              "\<lparr> Scheme = ''http'', url_Host = ''127.0.0.1:8087'' \<rparr>"
              "CONNECT_to ''example.org:443''" "example_world (\<lambda>dst src. [])"
              "example_Context True True (Inr 3)"]
  by (simp add: example_defs)

subsection \<open>The retry delay\<close>

text \<open>
  C2. For \<open>retryDelay = 0.5\<close> (the \<open>float32\<close> \<open>1 * 2^-1\<close>) the dialer's retry delay is
  \<open>int64(0.5 * 1000) * time.Second\<close>, that is 500 seconds, and not the 500 milliseconds
  that half a second is.
\<close>

theorem RetryDelay_half_is_500_seconds:
  assumes "RetryDelay (Dialer (Transport config)) = Finite False 1 (- 1)"
  shows "d_RetryDelay (NewFilter_dialer env config) = 500 * Second
       \<and> d_RetryDelay (NewFilter_dialer env config) \<noteq> 500 * Millisecond"
  using assms
  by (simp add: NewFilter_dialer_def Let_def Second_def Millisecond_def split: sum.splits)

theorem RetryDelay_half_is_500_seconds_witness:
  "d_RetryDelay (NewFilter_dialer (example_environment (Inr []))
                   (with_RetryDelay (Finite False 1 (- 1)) Config_zero)) = 500000000000
   \<and> d_RetryDelay (NewFilter_dialer (example_environment (Inr []))
                   (with_RetryDelay (Finite False 1 (- 1)) Config_zero)) \<noteq> 500000000"
  using RetryDelay_half_is_500_seconds
          [of "with_RetryDelay (Finite False 1 (- 1)) Config_zero" "example_environment (Inr [])"]
  by (simp add: with_RetryDelay_def Config_zero_def Second_def Millisecond_def)

subsection \<open>The transport's connection-reuse policy\<close>

text \<open>
  C3. Whatever the configuration says, the transport \<open>NewFilter\<close> returns has
  \<open>DisableKeepAlives = false\<close>: the composite literal never sets the field. The other
  three settings are taken from the configuration (the handshake timeout in seconds,
  scaled to nanoseconds).
\<close>

theorem transport_policy_of_NewFilter:
  assumes "NewFilter env config = Return (f, err)"
  shows "tr_DisableKeepAlives (transport f) = False
       \<and> tr_DisableCompression (transport f) = DisableCompression (Transport config)
       \<and> tr_TLSHandshakeTimeout (transport f) = TLSHandshakeTimeout (Transport config) * Second
       \<and> tr_MaxIdleConnsPerHost (transport f) = MaxIdleConnsPerHost (Transport config)"
  using assms
  by (auto simp: NewFilter_def NewFilter_transport_def http_Transport_zero_def Let_def
           split: if_splits sum.splits)

theorem transport_policy_of_NewFilter_witness:
  "DisableKeepAlives (Transport (with_DisableKeepAlives True Config_zero))
   \<and> (\<exists>f. NewFilter (example_environment (Inr [])) (with_DisableKeepAlives True Config_zero)
             = Return (f, None)
          \<and> tr_DisableKeepAlives (transport f) = False)"
proof -
  obtain f where f: "NewFilter (example_environment (Inr []))
                       (with_DisableKeepAlives True Config_zero) = Return (f, None)"
    by (simp add: NewFilter_def Let_def with_DisableKeepAlives_def Config_zero_def)
  from transport_policy_of_NewFilter [OF f] f show ?thesis
    by (auto simp: with_DisableKeepAlives_def Config_zero_def)
qed

subsection \<open>A malformed proxy URL\<close>

text \<open>
  C7. If the upstream proxy is enabled and its URL either fails to parse or, having a
  scheme other than \<open>http\<close> and \<open>https\<close> (the only ones for which the generic
  constructor \<open>proxy.FromURL\<close> is consulted), is rejected by that constructor, then
  \<open>NewFilter\<close> ends in \<open>glog.Fatalf\<close>: the process halts and no filter is returned, so no
  request ever meets the error.
\<close>

theorem malformed_proxy_URL_is_fatal:
  assumes "Enabled (Proxy (Transport config))"
    and "(\<exists>e. url_Parse env (URL (Proxy (Transport config))) = Inl e)
       \<or> (\<exists>u e. url_Parse env (URL (Proxy (Transport config))) = Inr u
              \<and> Scheme u \<noteq> ''http'' \<and> Scheme u \<noteq> ''https''
              \<and> proxy_FromURL env u (NewFilter_dialer env config) = Inl e)"
  shows "(\<exists>why. NewFilter env config = Fatalf why)
       \<and> (\<forall>f err. NewFilter env config \<noteq> Return (f, err))"
  using assms by (auto simp: NewFilter_def Let_def)

theorem malformed_proxy_URL_is_fatal_witness:
  "NewFilter (example_environment (Inr [])) (with_Proxy '':8087'' Config_zero)
     = Fatalf (url_Parse_error '':8087'' (External ''missing protocol scheme''))
   \<and> (\<exists>why. NewFilter (example_environment (Inr []))
               (with_Proxy ''gopher://127.0.0.1:70'' Config_zero) = Fatalf why)"
  using malformed_proxy_URL_is_fatal
          [of "with_Proxy ''gopher://127.0.0.1:70'' Config_zero" "example_environment (Inr [])"]
        malformed_proxy_URL_is_fatal
          [of "with_Proxy '':8087'' Config_zero" "example_environment (Inr [])"]
  by (simp add: example_defs NewFilter_def Let_def)

subsection \<open>Failure to enumerate the local interfaces\<close>

text \<open>
  A failed enumeration builds the same dialer as one that finds no address: the loop
  over the addresses is skipped in the one case and runs zero times in the other.
\<close>

lemma NewFilter_dialer_failed_enumeration:
  assumes "LocalInterfaceIPs env = Inl e"
  shows "NewFilter_dialer env config =
           NewFilter_dialer (env\<lparr> LocalInterfaceIPs := Inr [] \<rparr>) config"
  using assms by (simp add: NewFilter_dialer_def Let_def)

text \<open>
  The halt on a proxy URL that does not parse has nothing to do with the enumeration:
  it happens, or not, whatever \<open>helpers.LocalInterfaceIPs\<close> returned.
\<close>

lemma proxy_URL_halt_independent_of_enumeration:
  assumes "Enabled (Proxy (Transport config))"
    and "url_Parse env (URL (Proxy (Transport config))) = Inl e"
  shows "NewFilter (env\<lparr> LocalInterfaceIPs := ips \<rparr>) config = NewFilter env config"
  using assms by (simp add: NewFilter_def Let_def)

text \<open>
  C10. If \<open>helpers.LocalInterfaceIPs\<close> fails during construction, the error is dropped:
  the dialer is built with an empty loopback set, and \<open>NewFilter\<close> does exactly what it
  does when the enumeration succeeds and finds no address. Every filter it returns comes
  with a nil error, and a dialer installed in its transport holds no address at all, so
  no dial target is ever taken for a loopback address. As far as the enumeration goes
  \<open>NewFilter\<close> succeeds: it returns a filter whenever the proxy section lets it (the
  proxy is disabled, or its URL parses and is native or accepted by \<open>proxy.FromURL\<close>).
\<close>

theorem enumeration_failure_leaves_loopback_set_empty:
  assumes "LocalInterfaceIPs env = Inl e"
  shows "d_LoopbackAddrs (NewFilter_dialer env config) = Map.empty
       \<and> NewFilter env config = NewFilter (env\<lparr> LocalInterfaceIPs := Inr [] \<rparr>) config
       \<and> (\<forall>f err. NewFilter env config = Return (f, err)
             \<longrightarrow> err = None
                 \<and> (\<forall>d. tr_Dial (transport f) = Some (Dialer_Dial d)
                        \<longrightarrow> d_LoopbackAddrs d = Map.empty
                            \<and> (\<forall>addr. addr \<notin> dom (d_LoopbackAddrs d))))
       \<and> (\<not> Enabled (Proxy (Transport config))
            \<or> (\<exists>u. url_Parse env (URL (Proxy (Transport config))) = Inr u
                  \<and> (Scheme u = ''http'' \<or> Scheme u = ''https''
                     \<or> (\<exists>pd. proxy_FromURL env u (NewFilter_dialer env config) = Inr pd)))
           \<longrightarrow> (\<exists>f. NewFilter env config = Return (f, None)))"
proof -
  have empty: "d_LoopbackAddrs (NewFilter_dialer env config) = Map.empty"
    using assms by (simp add: NewFilter_dialer_def Let_def)
  have same: "NewFilter env config = NewFilter (env\<lparr> LocalInterfaceIPs := Inr [] \<rparr>) config"
    using NewFilter_dialer_failed_enumeration [OF assms, of config]
    by (simp add: NewFilter_def Let_def split: sum.splits)
  have returned: "\<forall>f err. NewFilter env config = Return (f, err)
      \<longrightarrow> err = None
          \<and> (\<forall>d. tr_Dial (transport f) = Some (Dialer_Dial d) \<longrightarrow> d = NewFilter_dialer env config)"
    by (auto simp: NewFilter_def NewFilter_transport_def Let_def split: if_splits sum.splits)
  have succeeds: "\<not> Enabled (Proxy (Transport config))
            \<or> (\<exists>u. url_Parse env (URL (Proxy (Transport config))) = Inr u
                  \<and> (Scheme u = ''http'' \<or> Scheme u = ''https''
                     \<or> (\<exists>pd. proxy_FromURL env u (NewFilter_dialer env config) = Inr pd)))
           \<longrightarrow> (\<exists>f. NewFilter env config = Return (f, None))"
    by (auto simp: NewFilter_def Let_def)
  from empty same returned succeeds show ?thesis by auto
qed

theorem enumeration_failure_leaves_loopback_set_empty_witness:
  "d_LoopbackAddrs (NewFilter_dialer (example_environment (Inl (External ''no interfaces'')))
                      Config_zero) = Map.empty
   \<and> (\<exists>f. NewFilter (example_environment (Inl (External ''no interfaces''))) Config_zero
             = Return (f, None)
          \<and> (\<exists>d. tr_Dial (transport f) = Some (Dialer_Dial d) \<and> d_LoopbackAddrs d = Map.empty))"
proof -
  have failed: "LocalInterfaceIPs (example_environment (Inl (External ''no interfaces'')))
                  = Inl (External ''no interfaces'')"
    by (simp add: example_environment_def)
  note t = enumeration_failure_leaves_loopback_set_empty [OF failed, of Config_zero]
  have off: "\<not> Enabled (Proxy (Transport Config_zero))"
    by (simp add: Config_zero_def)
  from t off obtain f
    where f: "NewFilter (example_environment (Inl (External ''no interfaces''))) Config_zero
                = Return (f, None)"
    by blast
  have "\<exists>d. tr_Dial (transport f) = Some (Dialer_Dial d)"
    using f off by (auto simp: NewFilter_def NewFilter_transport_def Let_def)
  then obtain d where d: "tr_Dial (transport f) = Some (Dialer_Dial d)" ..
  from t f d have "d_LoopbackAddrs d = Map.empty" by blast
  with t f d show ?thesis by blast
qed

section \<open>The CONNECT path of RoundTrip\<close>

subsection \<open>A dial that fails\<close>

text \<open>
  C5. When the dial of a CONNECT request fails, \<open>RoundTrip\<close> returns that error with a
  nil response. The dial is the only thing it has done by then: nothing was written to
  or flushed towards the client.
\<close>

theorem CONNECT_dial_failure:
  assumes "Method req = ''CONNECT''"
    and "tr_Dial (transport f) = Some df"
    and "dial w df ''tcp'' (Host req) = Inl err"
  shows "result (RoundTrip w f ctx req) = Returns ctx None (Some err)
       \<and> trace (RoundTrip w f ctx req) = [DialCall ''tcp'' (Host req)]
       \<and> background (RoundTrip w f ctx req) = []
       \<and> (\<forall>code. WriteHeader code \<notin> set (trace (RoundTrip w f ctx req)))
       \<and> Flush \<notin> set (trace (RoundTrip w f ctx req))"
  using assms by (simp add: RoundTrip_def)

theorem CONNECT_dial_failure_witness:
  "result (RoundTrip (example_world (\<lambda>dst src. [])) example_Filter
             (example_Context True True (Inr 3)) (CONNECT_to ''closed.example:443''))
     = Returns (example_Context True True (Inr 3)) None (Some (External ''connection refused''))
   \<and> trace (RoundTrip (example_world (\<lambda>dst src. [])) example_Filter
             (example_Context True True (Inr 3)) (CONNECT_to ''closed.example:443''))
     = [DialCall ''tcp'' ''closed.example:443'']"
  using CONNECT_dial_failure
          [of "CONNECT_to ''closed.example:443''" example_Filter "proxy_Dialer_Dial 0"
              "example_world (\<lambda>dst src. [])" "External ''connection refused''"
              "example_Context True True (Inr 3)"]
  by (simp add: example_defs)

subsection \<open>A response writer without the capabilities\<close>

text \<open>
  C8. When the dial succeeds but the response writer is not an \<open>http.Hijacker\<close>, or is
  one but not an \<open>http.Flusher\<close>, \<open>RoundTrip\<close> returns the matching capability error with
  a nil response. It has dialled once and done nothing else: no second dial, no write.
\<close>

theorem CONNECT_capability_error:
  assumes "Method req = ''CONNECT''"
    and "tr_Dial (transport f) = Some df"
    and "dial w df ''tcp'' (Host req) = Inr rconn"
    and "\<not> is_Hijacker (GetResponseWriter ctx) \<or> \<not> is_Flusher (GetResponseWriter ctx)"
  shows "result (RoundTrip w f ctx req) =
           Returns ctx None
             (Some (if \<not> is_Hijacker (GetResponseWriter ctx) then NotHijacker else NotFlusher))
       \<and> trace (RoundTrip w f ctx req) = [DialCall ''tcp'' (Host req)]
       \<and> background (RoundTrip w f ctx req) = []"
  using assms by (auto simp: RoundTrip_def Let_def)

theorem CONNECT_capability_error_witness:
  "result (RoundTrip (example_world (\<lambda>dst src. [])) example_Filter
             (example_Context True False (Inr 3)) (CONNECT_to ''example.org:443''))
     = Returns (example_Context True False (Inr 3)) None (Some NotFlusher)
   \<and> result (RoundTrip (example_world (\<lambda>dst src. [])) example_Filter
             (example_Context False True (Inr 3)) (CONNECT_to ''example.org:443''))
     = Returns (example_Context False True (Inr 3)) None (Some NotHijacker)
   \<and> trace (RoundTrip (example_world (\<lambda>dst src. [])) example_Filter
             (example_Context True False (Inr 3)) (CONNECT_to ''example.org:443''))
     = [DialCall ''tcp'' ''example.org:443'']"
  using CONNECT_capability_error
          [of "CONNECT_to ''example.org:443''" example_Filter "proxy_Dialer_Dial 0"
              "example_world (\<lambda>dst src. [])" 7 "example_Context True False (Inr 3)"]
        CONNECT_capability_error
          [of "CONNECT_to ''example.org:443''" example_Filter "proxy_Dialer_Dial 0"
              "example_world (\<lambda>dst src. [])" 7 "example_Context False True (Inr 3)"]
  by (simp add: example_defs)

subsection \<open>A hijack that fails\<close>

text \<open>
  C9. When the dial succeeds, the writer has both capabilities and \<open>Hijack()\<close> itself
  fails, \<open>RoundTrip\<close> returns an error, yet the status 200 was already written and
  flushed: an error from the CONNECT path does not mean the client saw no
  acknowledgment.
\<close>

theorem CONNECT_hijack_failure_after_ack:
  assumes "Method req = ''CONNECT''"
    and "tr_Dial (transport f) = Some df"
    and "dial w df ''tcp'' (Host req) = Inr rconn"
    and "is_Hijacker (GetResponseWriter ctx)"
    and "is_Flusher (GetResponseWriter ctx)"
    and "Hijack (GetResponseWriter ctx) = Inl err"
  shows "result (RoundTrip w f ctx req) = Returns ctx None (Some (HijackError err))
       \<and> trace (RoundTrip w f ctx req) =
           [DialCall ''tcp'' (Host req), WriteHeader StatusOK, Flush, HijackCall]"
  using assms by (simp add: RoundTrip_def Let_def)

theorem CONNECT_hijack_failure_after_ack_witness:
  "result (RoundTrip (example_world (\<lambda>dst src. [])) example_Filter
             (example_Context True True (Inl (External ''hijacked twice'')))
             (CONNECT_to ''example.org:443''))
     = Returns (example_Context True True (Inl (External ''hijacked twice''))) None
         (Some (HijackError (External ''hijacked twice'')))
   \<and> trace (RoundTrip (example_world (\<lambda>dst src. [])) example_Filter
             (example_Context True True (Inl (External ''hijacked twice'')))
             (CONNECT_to ''example.org:443''))
     = [DialCall ''tcp'' ''example.org:443'', WriteHeader 200, Flush, HijackCall]"
  using CONNECT_hijack_failure_after_ack
          [of "CONNECT_to ''example.org:443''" example_Filter "proxy_Dialer_Dial 0"
              "example_world (\<lambda>dst src. [])" 7
              "example_Context True True (Inl (External ''hijacked twice''))"
              "External ''hijacked twice''"]
  by (simp add: example_defs StatusOK_def)

subsection \<open>The order of acknowledgment, hijack and relay\<close>

text \<open>The four shapes the handler's trace can have on a CONNECT request.\<close>

lemma CONNECT_trace_cases:
  assumes "Method req = ''CONNECT''"
  shows "trace (RoundTrip w f ctx req) = []
       \<or> trace (RoundTrip w f ctx req) = [DialCall ''tcp'' (Host req)]
       \<or> trace (RoundTrip w f ctx req) =
           [DialCall ''tcp'' (Host req), WriteHeader StatusOK, Flush, HijackCall]
       \<or> (\<exists>rconn lconn cs.
            trace (RoundTrip w f ctx req) =
              [DialCall ''tcp'' (Host req), WriteHeader StatusOK, Flush, HijackCall,
               GoIoCopy rconn lconn, IoCopyCall lconn rconn] @ map Close cs @ [Close lconn])"
  using assms
  by (auto simp: RoundTrip_def Let_def split: option.splits sum.splits)

text \<open>
  In a list that is empty, \<open>[a]\<close>, or starts \<open>a, b, c\<close>, whatever stands before an
  element other than these three starts \<open>a, b, c\<close>.
\<close>

lemma before_third:
  assumes "t = pre @ e # post"
    and "e \<noteq> a" and "e \<noteq> b" and "e \<noteq> c"
    and "t = [] \<or> t = [a] \<or> (\<exists>rest. t = a # b # c # rest)"
  shows "\<exists>ys. pre = a # b # c # ys"
proof (cases pre)
  case Nil
  with assms show ?thesis by auto
next
  case p1: (Cons x1 pre1)
  show ?thesis
  proof (cases pre1)
    case Nil
    with p1 assms show ?thesis by auto
  next
    case p2: (Cons x2 pre2)
    show ?thesis
    proof (cases pre2)
      case Nil
      with p1 p2 assms show ?thesis by auto
    next
      case (Cons x3 pre3)
      with p1 p2 assms show ?thesis by auto
    qed
  qed
qed

text \<open>
  C6. In the handler's trace for a CONNECT request, whatever precedes the hijack, the
  \<open>go\<close> statement that starts the client-to-destination copy, or the call that starts
  the destination-to-client copy, begins with the dial, \<open>WriteHeader(200)\<close> and
  \<open>Flush()\<close>, in that order: the acknowledgment is written and flushed before the
  hijack and before either relay direction starts.
\<close>

theorem ack_flushed_before_hijack_and_relay:
  assumes "Method req = ''CONNECT''"
    and "trace (RoundTrip w f ctx req) = pre @ e # post"
    and "e = HijackCall \<or> starts_relay e"
  shows "\<exists>ys. pre = DialCall ''tcp'' (Host req) # WriteHeader StatusOK # Flush # ys"
proof -
  have shape: "trace (RoundTrip w f ctx req) = []
      \<or> trace (RoundTrip w f ctx req) = [DialCall ''tcp'' (Host req)]
      \<or> (\<exists>rest. trace (RoundTrip w f ctx req) =
            DialCall ''tcp'' (Host req) # WriteHeader StatusOK # Flush # rest)"
    using CONNECT_trace_cases [OF assms(1), of w f ctx] by auto
  have ne: "e \<noteq> DialCall ''tcp'' (Host req)" "e \<noteq> WriteHeader StatusOK" "e \<noteq> Flush"
    using assms(3) by (auto simp: starts_relay_def)
  show ?thesis
    by (rule before_third [OF assms(2) ne shape])
qed

theorem ack_flushed_before_hijack_and_relay_witness:
  "trace (RoundTrip (example_world (\<lambda>dst src. [])) example_Filter
            (example_Context True True (Inr 3)) (CONNECT_to ''example.org:443''))
     = [DialCall ''tcp'' ''example.org:443'', WriteHeader 200, Flush]
       @ HijackCall # [GoIoCopy 7 3, IoCopyCall 3 7, Close 3]
   \<and> (\<exists>ys. [DialCall ''tcp'' ''example.org:443'', WriteHeader 200, Flush]
           = DialCall ''tcp'' ''example.org:443'' # WriteHeader 200 # Flush # ys)"
  using ack_flushed_before_hijack_and_relay
          [of "CONNECT_to ''example.org:443''" "example_world (\<lambda>dst src. [])" example_Filter
              "example_Context True True (Inr 3)"
              "[DialCall ''tcp'' ''example.org:443'', WriteHeader 200, Flush]"
              HijackCall "[GoIoCopy 7 3, IoCopyCall 3 7, Close 3]"]
  by (simp add: example_defs RoundTrip_def StatusOK_def)

subsection \<open>Closing the two connections of a tunnel\<close>

lemma count_list_map_Close: "count_list (map Close cs) (Close c) = count_list cs c"
  by (induction cs) auto

text \<open>
  C4. After a successful hijack the handler's last action is the deferred close of the
  inbound connection, and that is the only close the handler itself performs: the
  inbound connection is closed once plus as often as the two runs of \<open>helpers.IoCopy\<close>
  close it, the outbound connection only as often as they do. With a relay helper that
  only copies, the outbound connection is therefore never closed.
\<close>

theorem CONNECT_tunnel_close_counts:
  assumes "Method req = ''CONNECT''"
    and "tr_Dial (transport f) = Some df"
    and "dial w df ''tcp'' (Host req) = Inr rconn"
    and "is_Hijacker (GetResponseWriter ctx)"
    and "is_Flusher (GetResponseWriter ctx)"
    and "Hijack (GetResponseWriter ctx) = Inr lconn"
    and "lconn \<noteq> rconn"
  shows "closes (RoundTrip w f ctx req) lconn =
           1 + count_list (IoCopy_closes w lconn rconn @ IoCopy_closes w rconn lconn) lconn
       \<and> closes (RoundTrip w f ctx req) rconn =
           count_list (IoCopy_closes w lconn rconn @ IoCopy_closes w rconn lconn) rconn
       \<and> last (trace (RoundTrip w f ctx req)) = Close lconn"
  using assms
  by (simp add: RoundTrip_def Let_def closes_def count_list_map_Close)

theorem CONNECT_tunnel_close_counts_witness:
  "closes (RoundTrip (example_world (\<lambda>dst src. [])) example_Filter
             (example_Context True True (Inr 3)) (CONNECT_to ''example.org:443'')) 3 = 1
   \<and> closes (RoundTrip (example_world (\<lambda>dst src. [])) example_Filter
             (example_Context True True (Inr 3)) (CONNECT_to ''example.org:443'')) 7 = 0"
  using CONNECT_tunnel_close_counts
          [of "CONNECT_to ''example.org:443''" example_Filter "proxy_Dialer_Dial 0"
              "example_world (\<lambda>dst src. [])" 7 "example_Context True True (Inr 3)" 3]
  by (simp add: example_defs)

text \<open>
  The same holds for a relay helper that closes connections by their role: whether a
  run of \<open>IoCopy(dst, src)\<close> closes its destination, its source, both or neither, the two
  runs swap the roles, so the tunnel never ends with each connection closed exactly
  once.
\<close>

lemma uniform_IoCopy_never_closes_each_once:
  assumes "Method req = ''CONNECT''"
    and "tr_Dial (transport f) = Some df"
    and "dial w df ''tcp'' (Host req) = Inr rconn"
    and "is_Hijacker (GetResponseWriter ctx)"
    and "is_Flusher (GetResponseWriter ctx)"
    and "Hijack (GetResponseWriter ctx) = Inr lconn"
    and "lconn \<noteq> rconn"
    and "IoCopy_closes w =
           (\<lambda>dst src. (if closes_dst then [dst] else []) @ (if closes_src then [src] else []))"
  shows "\<not> (closes (RoundTrip w f ctx req) lconn = 1 \<and> closes (RoundTrip w f ctx req) rconn = 1)"
  using assms
  by (auto simp: RoundTrip_def Let_def closes_def count_list_map_Close)

end
